theory Spec2Isabelle
  imports Complex_Main
begin

section \<open>JavaScript values\<close>

text \<open>
  The dashboard is one React component, \<^verbatim>\<open>Home\<close>, in two variants: the proxied one
  (\<^verbatim>\<open>wine-quality-dashboard/src/app/page.tsx\<close>, which posts to the same-origin path
  \<^verbatim>\<open>/api/predict\<close>) and the direct one (the second file of \<^verbatim>\<open>unnamed/part_000\<close>,
  which posts to the deployed service and adds a check for cross-origin failures).

  A JavaScript number is modelled by an exact real, or one of the three non-finite
  values; the rounding of a decimal to the nearest double and the sign of zero are left
  out. Strings are lists of 8-bit characters.
\<close>

datatype number = Fin real | NaN | PosInfinity | NegInfinity

datatype jsval =
    JUndefined
  | JNull
  | JBool bool
  | JNum number
  | JStr string
  | JArr "jsval list"
  | JObj "(string \<times> jsval) list"

text \<open>
  What the \<^verbatim>\<open>try\<close> block can throw is always an error object: \<^verbatim>\<open>fetch\<close> rejects with
  a \<^verbatim>\<open>TypeError\<close> (or a \<^verbatim>\<open>DOMException\<close>), \<^verbatim>\<open>response.json()\<close> with a
  \<^verbatim>\<open>SyntaxError\<close>, a property read on \<^verbatim>\<open>null\<close> with a \<^verbatim>\<open>TypeError\<close>, and
  line 77 throws an \<^verbatim>\<open>Error\<close>.
\<close>

datatype errorClass = Error | TypeError | SyntaxError | DOMException

datatype thrown = Thrown errorClass string

fun errorClassOf :: "thrown \<Rightarrow> errorClass" where
  "errorClassOf (Thrown c m) = c"

fun message :: "thrown \<Rightarrow> string" where
  "message (Thrown c m) = m"

text \<open>
  What is the JavaScript engine's own is taken as a parameter: how it prints a number
  (\<^verbatim>\<open>Number.prototype.toString\<close>), and the messages of the \<^verbatim>\<open>TypeError\<close>s it raises
  when a property (second argument) is read from \<^verbatim>\<open>null\<close> or \<^verbatim>\<open>undefined\<close> (first
  argument), when an object cannot be converted to a primitive value, and when the
  expression given is called and is not a function.
\<close>

record engine =
  numberToString :: "number \<Rightarrow> string"
  nullishReadMessage :: "jsval \<Rightarrow> string \<Rightarrow> string"
  toPrimitiveMessage :: string
  notAFunctionMessage :: "string \<Rightarrow> string"

fun ToBoolean :: "jsval \<Rightarrow> bool" where
  "ToBoolean JUndefined = False"
| "ToBoolean JNull = False"
| "ToBoolean (JBool b) = b"
| "ToBoolean (JNum (Fin r)) = (r \<noteq> 0)"
| "ToBoolean (JNum NaN) = False"
| "ToBoolean (JNum PosInfinity) = True"
| "ToBoolean (JNum NegInfinity) = True"
| "ToBoolean (JStr s) = (s \<noteq> [])"
| "ToBoolean (JArr xs) = True"
| "ToBoolean (JObj kvs) = True"

fun join :: "string \<Rightarrow> string list \<Rightarrow> string" where
  "join sep [] = []"
| "join sep [x] = x"
| "join sep (x # y # ys) = x @ sep @ join sep (y # ys)"

text \<open>The results of a list of conversions, or the first exception among them.\<close>

fun collect :: "(thrown + string) list \<Rightarrow> thrown + string list" where
  "collect [] = Inr []"
| "collect (Inl err # rs) = Inl err"
| "collect (Inr x # rs) = (case collect rs of Inl err \<Rightarrow> Inl err | Inr xs \<Rightarrow> Inr (x # xs))"

text \<open>
  \<^verbatim>\<open>ToString\<close> of a value parsed from JSON, which can throw. An array prints its
  elements joined by commas, \<^verbatim>\<open>null\<close> and \<^verbatim>\<open>undefined\<close> elements as the empty
  string, and throws what the conversion of an element throws. An object is converted
  by its \<^verbatim>\<open>toString\<close> and then its \<^verbatim>\<open>valueOf\<close>: a parsed object with no own
  property \<^verbatim>\<open>toString\<close> inherits the one that prints \<^verbatim>\<open>[object Object]\<close>; with
  such a property, whose value is never a function, neither method gives a primitive
  value and the conversion throws a \<^verbatim>\<open>TypeError\<close>.
\<close>

fun ToString :: "engine \<Rightarrow> jsval \<Rightarrow> thrown + string" where
  "ToString eng JUndefined = Inr ''undefined''"
| "ToString eng JNull = Inr ''null''"
| "ToString eng (JBool b) = Inr (if b then ''true'' else ''false'')"
| "ToString eng (JNum n) = Inr (numberToString eng n)"
| "ToString eng (JStr s) = Inr s"
| "ToString eng (JArr xs) =
     (case collect (map (\<lambda>x. if x = JUndefined \<or> x = JNull then Inr [] else ToString eng x) xs) of
        Inl err \<Rightarrow> Inl err
      | Inr strs \<Rightarrow> Inr (join '','' strs))"
| "ToString eng (JObj kvs) =
     (case map_of kvs ''toString'' of
        None \<Rightarrow> Inr ''[object Object]''
      | Some f \<Rightarrow> Inl (Thrown TypeError (toPrimitiveMessage eng)))"

text \<open>
  Reading the property \<open>p\<close> of a value, for a name that no built-in prototype defines
  (as \<^verbatim>\<open>error\<close> and \<^verbatim>\<open>predicted_quality\<close> are): an object gives its own property or
  \<^verbatim>\<open>undefined\<close>, \<^verbatim>\<open>null\<close> and \<^verbatim>\<open>undefined\<close> raise, every other value gives
  \<^verbatim>\<open>undefined\<close>. The list of a \<open>JObj\<close> holds the object's own properties.
\<close>

fun getProperty :: "engine \<Rightarrow> jsval \<Rightarrow> string \<Rightarrow> thrown + jsval" where
  "getProperty eng JNull p = Inl (Thrown TypeError (nullishReadMessage eng JNull p))"
| "getProperty eng JUndefined p = Inl (Thrown TypeError (nullishReadMessage eng JUndefined p))"
| "getProperty eng (JObj kvs) p = Inr (case map_of kvs p of None \<Rightarrow> JUndefined | Some v \<Rightarrow> v)"
| "getProperty eng v p = Inr JUndefined"

text \<open>\<^verbatim>\<open>String.prototype.includes\<close>: the second string occurs somewhere in the first.\<close>

fun includes_str :: "string \<Rightarrow> string \<Rightarrow> bool" where
  "includes_str [] sub = (sub = [])"
| "includes_str (c # cs) sub = (take (length sub) (c # cs) = sub \<or> includes_str cs sub)"

subsection \<open>parseFloat\<close>

text \<open>
  \<^verbatim>\<open>parseFloat\<close> skips leading white space, then reads the longest prefix that is a
  decimal literal (an optional sign, then \<^verbatim>\<open>Infinity\<close> or digits with an optional
  fraction and an optional exponent) and ignores what follows; with no such prefix the
  result is \<^verbatim>\<open>NaN\<close>. As everywhere in this model, the result is the exact real the
  literal denotes: it is not rounded to a double, a literal beyond the range of the
  doubles does not become \<^verbatim>\<open>Infinity\<close>, and a tiny one does not become 0.
\<close>

definition isWhiteSpace :: "char \<Rightarrow> bool" where
  "isWhiteSpace c = (c \<in> set [CHR 0x09, CHR 0x0A, CHR 0x0B, CHR 0x0C, CHR 0x0D, CHR 0x20, CHR 0xA0])"

definition isDigit :: "char \<Rightarrow> bool" where
  "isDigit c = (c \<in> set ''0123456789'')"

definition digitValue :: "char \<Rightarrow> nat" where
  "digitValue c = of_char c - 48"

definition decimalValue :: "string \<Rightarrow> nat" where
  "decimalValue ds = foldl (\<lambda>a c. 10 * a + digitValue c) 0 ds"

text \<open>
  The exponent part at the head of a string: \<^verbatim>\<open>e\<close> or \<^verbatim>\<open>E\<close>, an optional sign and at
  least one digit. The result is whether the exponent is negative, and its magnitude;
  a string that does not start with a complete exponent part has exponent 0.
\<close>

fun exponentPart :: "string \<Rightarrow> bool \<times> nat" where
  "exponentPart [] = (False, 0)"
| "exponentPart (c # cs) =
     (if c = CHR ''e'' \<or> c = CHR ''E'' then
        (case cs of
           [] \<Rightarrow> (False, 0)
         | d # ds \<Rightarrow>
             (if d = CHR ''-'' then (takeWhile isDigit ds \<noteq> [], decimalValue (takeWhile isDigit ds))
              else if d = CHR ''+'' then (False, decimalValue (takeWhile isDigit ds))
              else (False, decimalValue (takeWhile isDigit cs))))
      else (False, 0))"

definition scale :: "real \<Rightarrow> bool \<times> nat \<Rightarrow> real" where
  "scale m e = (if fst e then m / 10 ^ snd e else m * 10 ^ snd e)"

definition StrUnsignedDecimalLiteral :: "string \<Rightarrow> number" where
  "StrUnsignedDecimalLiteral s =
     (if take 8 s = ''Infinity'' then PosInfinity
      else
        let ip = takeWhile isDigit s;
            r1 = dropWhile isDigit s;
            dot = (take 1 r1 = ''.'');
            fp = (if dot then takeWhile isDigit (drop 1 r1) else []);
            r2 = (if dot then dropWhile isDigit (drop 1 r1) else r1)
        in if ip = [] \<and> fp = [] then NaN
           else Fin (scale (real (decimalValue (ip @ fp)) / 10 ^ length fp) (exponentPart r2)))"

fun negate :: "number \<Rightarrow> number" where
  "negate (Fin r) = Fin (- r)"
| "negate NaN = NaN"
| "negate PosInfinity = NegInfinity"
| "negate NegInfinity = PosInfinity"

definition parseFloat :: "string \<Rightarrow> number" where
  "parseFloat s =
     (case dropWhile isWhiteSpace s of
        [] \<Rightarrow> NaN
      | c # cs \<Rightarrow>
          (if c = CHR ''-'' then negate (StrUnsignedDecimalLiteral cs)
           else if c = CHR ''+'' then StrUnsignedDecimalLiteral cs
           else StrUnsignedDecimalLiteral (c # cs)))"

section \<open>The feature state\<close>

datatype variant = Proxied | Direct

datatype FeatureName =
    Fixed_acidity
  | Volatile_acidity
  | Citric_acid
  | Chlorides
  | Free_sulfur_dioxide
  | Density
  | Alcohol
  | Type_white

record range =
  min_r :: real
  max_r :: real
  step_r :: real

text \<open>\<^verbatim>\<open>featureRanges\<close> of page.tsx, lines 7 to 16.\<close>

fun featureRanges :: "FeatureName \<Rightarrow> range" where
  "featureRanges Fixed_acidity = \<lparr>min_r = 4, max_r = 16, step_r = 0.1\<rparr>"
| "featureRanges Volatile_acidity = \<lparr>min_r = 0, max_r = 1.6, step_r = 0.01\<rparr>"
| "featureRanges Citric_acid = \<lparr>min_r = 0, max_r = 1.7, step_r = 0.01\<rparr>"
| "featureRanges Chlorides = \<lparr>min_r = 0, max_r = 0.7, step_r = 0.001\<rparr>"
| "featureRanges Free_sulfur_dioxide = \<lparr>min_r = 1, max_r = 300, step_r = 1\<rparr>"
| "featureRanges Density = \<lparr>min_r = 0.98, max_r = 1.04, step_r = 0.0001\<rparr>"
| "featureRanges Alcohol = \<lparr>min_r = 8, max_r = 15, step_r = 0.1\<rparr>"
| "featureRanges Type_white = \<lparr>min_r = 0, max_r = 1, step_r = 1\<rparr>"

text \<open>\<^verbatim>\<open>featureRanges\<close> of the direct variant (part_000, lines 38 to 47).\<close>

fun featureRanges_direct :: "FeatureName \<Rightarrow> range" where
  "featureRanges_direct Fixed_acidity = \<lparr>min_r = 4, max_r = 12, step_r = 0.1\<rparr>"
| "featureRanges_direct Volatile_acidity = \<lparr>min_r = 0, max_r = 0.9, step_r = 0.01\<rparr>"
| "featureRanges_direct Citric_acid = \<lparr>min_r = 0, max_r = 0.8, step_r = 0.01\<rparr>"
| "featureRanges_direct Chlorides = \<lparr>min_r = 0, max_r = 0.2, step_r = 0.001\<rparr>"
| "featureRanges_direct Free_sulfur_dioxide = \<lparr>min_r = 1, max_r = 65, step_r = 1\<rparr>"
| "featureRanges_direct Density = \<lparr>min_r = 0.98, max_r = 1.01, step_r = 0.0001\<rparr>"
| "featureRanges_direct Alcohol = \<lparr>min_r = 8, max_r = 14, step_r = 0.1\<rparr>"
| "featureRanges_direct Type_white = \<lparr>min_r = 0, max_r = 1, step_r = 1\<rparr>"

text \<open>The table of each variant.\<close>

fun ranges :: "variant \<Rightarrow> FeatureName \<Rightarrow> range" where
  "ranges Proxied = featureRanges"
| "ranges Direct = featureRanges_direct"

text \<open>
  \<open>min \<le> v \<le> max\<close> as JavaScript compares numbers: every comparison with \<^verbatim>\<open>NaN\<close>
  is false, and the bounds of the table are finite.
\<close>

fun inRange :: "range \<Rightarrow> number \<Rightarrow> bool" where
  "inRange rg (Fin v) = (min_r rg \<le> v \<and> v \<le> max_r rg)"
| "inRange rg NaN = False"
| "inRange rg PosInfinity = False"
| "inRange rg NegInfinity = False"

type_synonym features = "FeatureName \<Rightarrow> number"

text \<open>
  The four pieces of React state of \<^verbatim>\<open>Home\<close>. \<open>prediction\<close> is declared
  \<^verbatim>\<open>number | null\<close> and \<open>error\<close> is declared \<^verbatim>\<open>string | null\<close>; at run time
  \<open>prediction\<close> holds whatever \<^verbatim>\<open>data.predicted_quality\<close> was.
\<close>

record state =
  features :: features
  prediction :: jsval
  isLoading :: bool
  error :: "string option"

fun initialFeatures :: features where
  "initialFeatures Fixed_acidity = Fin 7.0"
| "initialFeatures Volatile_acidity = Fin 0.27"
| "initialFeatures Citric_acid = Fin 0.36"
| "initialFeatures Chlorides = Fin 0.05"
| "initialFeatures Free_sulfur_dioxide = Fin 30"
| "initialFeatures Density = Fin 0.995"
| "initialFeatures Alcohol = Fin 10.5"
| "initialFeatures Type_white = Fin 1"

definition initial :: state where
  "initial = \<lparr>features = initialFeatures, prediction = JNull, isLoading = False, error = None\<rparr>"

definition handleSliderChange :: "FeatureName \<Rightarrow> string \<Rightarrow> state \<Rightarrow> state" where
  "handleSliderChange name v s = s\<lparr>features := (features s)(name := parseFloat v)\<rparr>"

definition handleTypeChange :: "number \<Rightarrow> state \<Rightarrow> state" where
  "handleTypeChange v s = s\<lparr>features := (features s)(Type_white := v)\<rparr>"

section \<open>The prediction request\<close>

text \<open>
  The arguments of \<^verbatim>\<open>fetch\<close>; \<open>http_method\<close> is the option \<^verbatim>\<open>method\<close>, and
  \<open>body\<close> is the object that \<^verbatim>\<open>JSON.stringify\<close> is applied to.
\<close>

record request =
  url :: string
  http_method :: string
  headers :: "(string \<times> string) list"
  body :: "(string \<times> number) list"

definition endpoint :: "variant \<Rightarrow> string" where
  "endpoint v =
     (case v of
        Proxied \<Rightarrow> ''/api/predict''
      | Direct \<Rightarrow>
          ''https://bias-classifier.agreeablemushroom-fe0ec30e.southeastasia.azurecontainerapps.io/predict_wine'')"

text \<open>
  The object literal of lines 62 to 71, which \<^verbatim>\<open>JSON.stringify\<close> turns into the body
  of the request: the properties in the order they are written.
\<close>

definition payload :: "features \<Rightarrow> (string \<times> number) list" where
  "payload f =
     [(''fixed_acidity'', f Fixed_acidity),
      (''volatile_acidity'', f Volatile_acidity),
      (''citric_acid'', f Citric_acid),
      (''chlorides'', f Chlorides),
      (''free_sulfur_dioxide'', f Free_sulfur_dioxide),
      (''density'', f Density),
      (''alcohol'', f Alcohol),
      (''type_white'', f Type_white)]"

text \<open>
  What the network answers: \<^verbatim>\<open>fetch\<close> rejects, or resolves to a response with a status
  and a body that \<^verbatim>\<open>response.json()\<close> parses or rejects. \<^verbatim>\<open>response.ok\<close> is true
  for the statuses 200 to 299.
\<close>

datatype json_result = JsonResolved jsval | JsonRejected thrown

record response =
  status :: nat
  json :: json_result

definition ok :: "response \<Rightarrow> bool" where
  "ok r = (200 \<le> status r \<and> status r \<le> 299)"

datatype fetch_result = Resolved response | Rejected thrown

text \<open>
  \<^verbatim>\<open>handlePredict\<close> is an asynchronous function. It is modelled by the effects it
  performs, in program order: the part that runs when it is called, up to the call of
  \<^verbatim>\<open>fetch\<close> (lines 52 to 72), and the part that runs when the network has answered
  (lines 74 to 87).
\<close>

datatype effect =
    SetIsLoading bool
  | SetError "string option"
  | SetPrediction jsval
  | Fetch request
  | ConsoleError thrown

definition handlePredict_submit :: "variant \<Rightarrow> state \<Rightarrow> effect list" where
  "handlePredict_submit v s =
     [SetIsLoading True,
      SetError None,
      SetPrediction JNull,
      Fetch \<lparr>url = endpoint v, http_method = ''POST'',
             headers = [(''Content-Type'', ''application/json'')],
             body = payload (features s)\<rparr>]"

text \<open>
  The \<^verbatim>\<open>try\<close> block after the call of \<^verbatim>\<open>fetch\<close>: the value it hands to
  \<^verbatim>\<open>setPrediction\<close>, or what it throws. The body is parsed before the status is
  looked at. \<^verbatim>\<open>new Error(x)\<close> converts \<open>x\<close> to a string, and what that conversion
  throws is thrown in place of the \<^verbatim>\<open>Error\<close>.
\<close>

fun try_block :: "engine \<Rightarrow> fetch_result \<Rightarrow> thrown + jsval" where
  "try_block eng (Rejected err) = Inl err"
| "try_block eng (Resolved resp) =
     (case json resp of
        JsonRejected err \<Rightarrow> Inl err
      | JsonResolved data \<Rightarrow>
          (if \<not> ok resp then
             (case getProperty eng data ''error'' of
                Inl err \<Rightarrow> Inl err
              | Inr e \<Rightarrow>
                  (case ToString eng (if ToBoolean e then e else JStr ''Prediction request failed'') of
                     Inl err \<Rightarrow> Inl err
                   | Inr m \<Rightarrow> Inl (Thrown Error m)))
           else getProperty eng data ''predicted_quality''))"

fun isErrorWithMessage :: "thrown \<Rightarrow> bool" where
  "isErrorWithMessage (Thrown c m) = True"

text \<open>The argument of \<^verbatim>\<open>setError\<close> in the \<^verbatim>\<open>catch\<close> block of each variant.\<close>

fun catch_block :: "variant \<Rightarrow> thrown \<Rightarrow> string" where
  "catch_block Proxied err = message err"
| "catch_block Direct err =
     (if errorClassOf err = TypeError \<and> isErrorWithMessage err
         \<and> includes_str (message err) ''fetch''
      then ''Network error: This could be due to CORS restrictions. Please ensure the API allows requests from this origin.''
      else (if isErrorWithMessage err then message err else ''An unknown error occurred''))"

definition handlePredict_resume :: "variant \<Rightarrow> engine \<Rightarrow> fetch_result \<Rightarrow> effect list" where
  "handlePredict_resume v eng r =
     (case try_block eng r of
        Inr q \<Rightarrow> [SetPrediction q]
      | Inl err \<Rightarrow> [ConsoleError err, SetError (Some (catch_block v err))])
     @ [SetIsLoading False]"

section \<open>The component and its events\<close>

text \<open>
  The state React holds for the component, with every call of a setter applied in the
  order of the calls, together with the requests that were issued and have not been
  answered yet.
\<close>

record world =
  ui :: state
  inflight :: "request list"

fun perform :: "world \<Rightarrow> effect \<Rightarrow> world" where
  "perform w (SetIsLoading b) = w\<lparr>ui := (ui w)\<lparr>isLoading := b\<rparr>\<rparr>"
| "perform w (SetError e) = w\<lparr>ui := (ui w)\<lparr>error := e\<rparr>\<rparr>"
| "perform w (SetPrediction q) = w\<lparr>ui := (ui w)\<lparr>prediction := q\<rparr>\<rparr>"
| "perform w (Fetch rq) = w\<lparr>inflight := inflight w @ [rq]\<rparr>"
| "perform w (ConsoleError err) = w"

text \<open>A call of \<^verbatim>\<open>handlePredict\<close> as the handler of a render that is up to date.\<close>

definition handlePredict_call :: "variant \<Rightarrow> world \<Rightarrow> world" where
  "handlePredict_call v w = foldl perform w (handlePredict_submit v (ui w))"

text \<open>
  The network answers the request at position \<open>i\<close> of the requests in flight, and
  the rest of that call of \<^verbatim>\<open>handlePredict\<close> runs.
\<close>

definition settle :: "variant \<Rightarrow> engine \<Rightarrow> world \<Rightarrow> nat \<Rightarrow> fetch_result \<Rightarrow> world" where
  "settle v eng w i r =
     (if i < length (inflight w)
      then foldl perform (w\<lparr>inflight := take i (inflight w) @ drop (Suc i) (inflight w)\<rparr>)
             (handlePredict_resume v eng r)
      else w)"

definition initial_world :: world where
  "initial_world = \<lparr>ui = initial, inflight = []\<rparr>"

text \<open>
  One whole call of \<^verbatim>\<open>handlePredict\<close> from a state with nothing in flight, the network
  answering \<open>r\<close>.
\<close>

definition handlePredict :: "variant \<Rightarrow> engine \<Rightarrow> fetch_result \<Rightarrow> state \<Rightarrow> state" where
  "handlePredict v eng r s =
     ui (settle v eng (handlePredict_call v \<lparr>ui = s, inflight = []\<rparr>) 0 r)"

text \<open>
  The specification's \<open>PredictionOutcome\<close>, read off the three state variables (not
  off the page): loading is \<open>Pending\<close>, an error that is not \<^verbatim>\<open>null\<close> is a failure,
  a prediction that is not \<^verbatim>\<open>null\<close> is a result. What the page shows of a state is
  \<open>render\<close> below: it shows no paragraph for an empty error message, and it throws
  on a prediction that is neither \<^verbatim>\<open>null\<close> nor a number.
\<close>

datatype outcome = Idle | Pending | Succeeded jsval | Failed string

definition outcome_of :: "state \<Rightarrow> outcome" where
  "outcome_of s =
     (if isLoading s then Pending
      else (case error s of
              Some m \<Rightarrow> Failed m
            | None \<Rightarrow> (if prediction s = JNull then Idle else Succeeded (prediction s))))"

subsection \<open>Rendering\<close>

text \<open>
  The part of the returned JSX that depends on the three state variables of a
  prediction (lines 141 to 159): the label of the predict button and its \<^verbatim>\<open>disabled\<close>
  attribute, the error paragraph, present when \<open>error\<close> is truthy, and the result
  box, present when \<open>prediction !== null\<close>, which shows \<^verbatim>\<open>prediction.toFixed(1)\<close>
  (\<open>predictionShown\<close> is the number it prints). The sliders are left out: every feature
  is a number, so their labels never throw.
\<close>

record view =
  buttonLabel :: string
  buttonDisabled :: bool
  errorShown :: "string option"
  predictionShown :: "number option"

text \<open>
  \<^verbatim>\<open>prediction.toFixed(1)\<close>: a number has the method; reading it from \<^verbatim>\<open>undefined\<close>
  throws; on every other value the property is missing or, in an object parsed from
  JSON, not a function, and the call throws.
\<close>

fun toFixed_call :: "engine \<Rightarrow> jsval \<Rightarrow> thrown + number" where
  "toFixed_call eng (JNum n) = Inr n"
| "toFixed_call eng JUndefined = Inl (Thrown TypeError (nullishReadMessage eng JUndefined ''toFixed''))"
| "toFixed_call eng JNull = Inl (Thrown TypeError (nullishReadMessage eng JNull ''toFixed''))"
| "toFixed_call eng q = Inl (Thrown TypeError (notAFunctionMessage eng ''prediction.toFixed''))"

definition render :: "engine \<Rightarrow> state \<Rightarrow> thrown + view" where
  "render eng s =
     (let label = (if isLoading s then ''Predicting...'' else ''Predict Quality'');
          err = (case error s of None \<Rightarrow> None | Some m \<Rightarrow> (if m \<noteq> [] then Some m else None))
      in if prediction s \<noteq> JNull then
           (case toFixed_call eng (prediction s) of
              Inl thr \<Rightarrow> Inl thr
            | Inr n \<Rightarrow>
                Inr \<lparr>buttonLabel = label, buttonDisabled = isLoading s, errorShown = err,
                     predictionShown = Some n\<rparr>)
         else
           Inr \<lparr>buttonLabel = label, buttonDisabled = isLoading s, errorShown = err,
                predictionShown = None\<rparr>)"

subsection \<open>The page between renders\<close>

text \<open>
  The handlers and the attributes of the page are those of the last render: the
  \<^verbatim>\<open>features\<close> that \<^verbatim>\<open>handlePredict\<close> reads and the \<^verbatim>\<open>disabled={isLoading}\<close> of
  the predict button are taken from the state as it was then (\<open>rendered\<close>), while the
  setters act on the state React holds (\<open>live\<close>). A render that throws takes the
  component off the page (\<open>mounted\<close>): no handler is left, and the setters of a
  call still in flight do nothing.
\<close>

record page =
  live :: world
  rendered :: state
  mounted :: bool

definition initial_page :: page where
  "initial_page = \<lparr>live = initial_world, rendered = initial, mounted = True\<rparr>"

text \<open>
  The events of the page: a slider's \<^verbatim>\<open>onChange\<close>, the two type buttons
  (\<^verbatim>\<open>handleTypeChange(0)\<close> and \<^verbatim>\<open>handleTypeChange(1)\<close>), a click on the predict button,
  which is delivered unless the button was rendered disabled, the answer of the
  network to the request at some position of the requests in flight, and a render.
\<close>

datatype event =
    SliderInput FeatureName string
  | RedButton
  | WhiteButton
  | PredictButton
  | Settled nat fetch_result
  | Render

fun fire :: "variant \<Rightarrow> engine \<Rightarrow> page \<Rightarrow> event \<Rightarrow> page" where
  "fire v eng p (SliderInput name x) =
     (if mounted p then p\<lparr>live := (live p)\<lparr>ui := handleSliderChange name x (ui (live p))\<rparr>\<rparr> else p)"
| "fire v eng p RedButton =
     (if mounted p then p\<lparr>live := (live p)\<lparr>ui := handleTypeChange (Fin 0) (ui (live p))\<rparr>\<rparr> else p)"
| "fire v eng p WhiteButton =
     (if mounted p then p\<lparr>live := (live p)\<lparr>ui := handleTypeChange (Fin 1) (ui (live p))\<rparr>\<rparr> else p)"
| "fire v eng p PredictButton =
     (if mounted p \<and> \<not> isLoading (rendered p)
      then p\<lparr>live := foldl perform (live p) (handlePredict_submit v (rendered p))\<rparr>
      else p)"
| "fire v eng p (Settled i r) =
     (if mounted p then p\<lparr>live := settle v eng (live p) i r\<rparr>
      else p\<lparr>live := (live p)\<lparr>inflight :=
             take i (inflight (live p)) @ drop (Suc i) (inflight (live p))\<rparr>\<rparr>)"
| "fire v eng p Render =
     (if mounted p then
        (case render eng (ui (live p)) of
           Inl thr \<Rightarrow> p\<lparr>mounted := False\<rparr>
         | Inr vw \<Rightarrow> p\<lparr>rendered := ui (live p)\<rparr>)
      else p)"

definition run :: "variant \<Rightarrow> engine \<Rightarrow> page \<Rightarrow> event list \<Rightarrow> page" where
  "run v eng p evs = foldl (fire v eng) p evs"

text \<open>
  Whether the predict button has been clicked since the last render, and the sequences
  of events in which it is never clicked twice without a render in between. React
  renders after the updates of a click before the next click of the user is delivered;
  clicks dispatched by a script in one task have no render between them.
\<close>

fun clicked :: "bool \<Rightarrow> event \<Rightarrow> bool" where
  "clicked c PredictButton = True"
| "clicked c Render = False"
| "clicked c e = c"

fun rendered_between_clicks :: "bool \<Rightarrow> event list \<Rightarrow> bool" where
  "rendered_between_clicks c [] = True"
| "rendered_between_clicks c (e # es) =
     ((e \<noteq> PredictButton \<or> \<not> c) \<and> rendered_between_clicks (clicked c e) es)"

text \<open>
  At most one request is in flight; while the component is on the page it is loading
  when a request is in flight, and, when the button has not been clicked since the last
  render, the button was rendered disabled if the component is loading.
\<close>

definition single_flight :: "bool \<Rightarrow> page \<Rightarrow> bool" where
  "single_flight c p =
     (length (inflight (live p)) \<le> 1
      \<and> (mounted p \<and> inflight (live p) \<noteq> [] \<longrightarrow> isLoading (ui (live p)))
      \<and> (mounted p \<and> \<not> c \<and> isLoading (ui (live p)) \<longrightarrow> isLoading (rendered p)))"

subsection \<open>An engine for concrete evaluations\<close>

definition digitChar :: "nat \<Rightarrow> char" where
  "digitChar d = char_of (48 + d)"

fun showNat :: "nat \<Rightarrow> nat \<Rightarrow> string" where
  "showNat 0 n = []"
| "showNat (Suc k) n = (if n < 10 then [digitChar n] else showNat k (n div 10) @ [digitChar (n mod 10)])"

fun fractionDigits :: "nat \<Rightarrow> real \<Rightarrow> string" where
  "fractionDigits 0 x = []"
| "fractionDigits (Suc k) x =
     (if x = 0 then []
      else digitChar (nat \<lfloor>10 * x\<rfloor>) # fractionDigits k (10 * x - real_of_int \<lfloor>10 * x\<rfloor>))"

definition showDecimal :: "real \<Rightarrow> string" where
  "showDecimal r =
     (let a = \<bar>r\<bar>; ip = nat \<lfloor>a\<rfloor>; fd = fractionDigits 17 (a - real ip)
      in (if r < 0 then ''-'' else []) @ showNat (Suc ip) ip @ (if fd = [] then [] else ''.'' @ fd))"

text \<open>
  The wording of V8 for the three errors, and numbers printed in decimal notation (sign,
  integer part, at most 17 digits of the fraction).
\<close>

definition sampleEngine :: engine where
  "sampleEngine =
     \<lparr>numberToString =
        (\<lambda>n. case n of
                Fin r \<Rightarrow> showDecimal r
              | NaN \<Rightarrow> ''NaN''
              | PosInfinity \<Rightarrow> ''Infinity''
              | NegInfinity \<Rightarrow> ''-Infinity''),
      nullishReadMessage =
        (\<lambda>v p. ''Cannot read properties of '' @ (if v = JNull then ''null'' else ''undefined'')
                @ '' (reading '' @ [CHR 0x27] @ p @ [CHR 0x27] @ '')''),
      toPrimitiveMessage = ''Cannot convert object to primitive value'',
      notAFunctionMessage = (\<lambda>f. f @ '' is not a function'')\<rparr>"

section \<open>Evaluation lemmas\<close>

lemmas parseFloat_eval = parseFloat_def StrUnsignedDecimalLiteral_def isDigit_def isWhiteSpace_def
  decimalValue_def digitValue_def scale_def Let_def

lemma parseFloat_99: "parseFloat ''99'' = Fin 99"
  by (simp add: parseFloat_eval)

lemma parseFloat_12_5: "parseFloat ''12.5'' = Fin 12.5"
  by (simp add: parseFloat_eval)

lemma parseFloat_abc: "parseFloat ''abc'' = NaN"
  by (simp add: parseFloat_eval)

lemma parseFloat_examples:
  "parseFloat ''  -1.5e2xyz'' = Fin (- 150)"
  "parseFloat ''5.e-1'' = Fin 0.5"
  "parseFloat ''.5'' = Fin 0.5"
  "parseFloat ''.'' = NaN"
  "parseFloat ''-Infinity'' = NegInfinity"
  "parseFloat ''1e'' = Fin 1"
  "parseFloat [] = NaN"
  by (simp_all add: parseFloat_eval)

lemma all_features:
  "(\<forall>g. P g) = (P Fixed_acidity \<and> P Volatile_acidity \<and> P Citric_acid \<and> P Chlorides
    \<and> P Free_sulfur_dioxide \<and> P Density \<and> P Alcohol \<and> P Type_white)"
proof
  assume a: "P Fixed_acidity \<and> P Volatile_acidity \<and> P Citric_acid \<and> P Chlorides
    \<and> P Free_sulfur_dioxide \<and> P Density \<and> P Alcohol \<and> P Type_white"
  show "\<forall>g. P g"
  proof
    fix g show "P g" using a by (cases g) simp_all
  qed
qed simp

lemmas handlePredict_eval = handlePredict_def handlePredict_call_def handlePredict_submit_def
  handlePredict_resume_def settle_def outcome_of_def

text \<open>What one whole call leaves in the state, by the result of the \<^verbatim>\<open>try\<close> block.\<close>

lemma handlePredict_state:
  "handlePredict v eng r s =
     (case try_block eng r of
        Inr q \<Rightarrow> s\<lparr>prediction := q, isLoading := False, error := None\<rparr>
      | Inl err \<Rightarrow> s\<lparr>prediction := JNull, isLoading := False, error := Some (catch_block v err)\<rparr>)"
  by (simp add: handlePredict_eval split: sum.split)

lemma catch_block_Error: "catch_block v (Thrown Error m) = m"
  by (cases v) simp_all

section \<open>The feature setters\<close>

theorem handleSliderChange_rejects_counterexample:
  "features (handleSliderChange Alcohol ''99'' initial) Alcohol = Fin 99
   \<and> features initial Alcohol = Fin 10.5
   \<and> \<not> inRange (ranges Proxied Alcohol) (Fin 99)
   \<and> \<not> inRange (ranges Direct Alcohol) (Fin 99)
   \<and> features (handleSliderChange Alcohol ''abc'' initial) Alcohol = NaN"
  by (simp add: handleSliderChange_def parseFloat_99 parseFloat_abc initial_def)

text \<open>
  C2, as the code has it. \<^verbatim>\<open>handleSliderChange\<close> has no check: it stores the parsed
  value of the raw string in the named feature whatever it is (\<^verbatim>\<open>NaN\<close> when the
  string does not parse, a number outside the range when the string denotes one) and
  changes nothing else. So every feature lies within its range after the update
  exactly when the parsed value lies within the range of the named feature and every
  other feature lay within its range before.
\<close>

theorem handleSliderChange_commits:
  "features (handleSliderChange name x s) name = parseFloat x
   \<and> (\<forall>g. g \<noteq> name \<longrightarrow> features (handleSliderChange name x s) g = features s g)
   \<and> prediction (handleSliderChange name x s) = prediction s
   \<and> isLoading (handleSliderChange name x s) = isLoading s
   \<and> error (handleSliderChange name x s) = error s
   \<and> ((\<forall>g. inRange (ranges v g) (features (handleSliderChange name x s) g))
        = (inRange (ranges v name) (parseFloat x)
           \<and> (\<forall>g. g \<noteq> name \<longrightarrow> inRange (ranges v g) (features s g))))"
  by (auto simp add: handleSliderChange_def)

theorem handleSliderChange_commits_witness:
  "features (handleSliderChange Alcohol ''12.5'' initial) Alcohol = Fin 12.5
   \<and> features (handleSliderChange Alcohol ''12.5'' initial) Density = Fin 0.995
   \<and> (\<forall>g. inRange (ranges Proxied g) (features (handleSliderChange Alcohol ''12.5'' initial) g))"
  using handleSliderChange_commits [of Alcohol "''12.5''" initial Proxied]
  by (simp add: parseFloat_12_5 initial_def all_features)

text \<open>
  C9. When the raw string denotes a number \<open>val\<close> with \<open>min \<le> val \<le> max\<close> for the
  named feature (in the table of either variant), reading the feature after
  \<^verbatim>\<open>handleSliderChange\<close> gives \<open>val\<close>.
\<close>

theorem handleSliderChange_read_back:
  assumes "parseFloat x = Fin val"
    and "min_r (ranges v name) \<le> val" and "val \<le> max_r (ranges v name)"
  shows "features (handleSliderChange name x s) name = Fin val"
  using assms by (simp add: handleSliderChange_def)

theorem handleSliderChange_read_back_witness:
  "parseFloat ''12.5'' = Fin 12.5 \<and> min_r (ranges Direct Alcohol) \<le> 12.5
   \<and> 12.5 \<le> max_r (ranges Direct Alcohol)
   \<and> features (handleSliderChange Alcohol ''12.5'' initial) Alcohol = Fin 12.5"
proof -
  have a: "parseFloat ''12.5'' = Fin 12.5" by (rule parseFloat_12_5)
  have b: "min_r (ranges Direct Alcohol) \<le> 12.5" by simp
  have c: "12.5 \<le> max_r (ranges Direct Alcohol)" by simp
  show ?thesis using a b c handleSliderChange_read_back [OF a b c, of initial] by simp
qed

text \<open>
  C10. For every number, \<^verbatim>\<open>NaN\<close> and the numbers other than 0 and 1 included,
  \<^verbatim>\<open>handleTypeChange\<close> gives the previous state with \<open>type_white\<close> replaced by the
  argument: the seven other features and the three other state variables are unchanged,
  and nothing restricts the argument.
\<close>

theorem handleTypeChange_sets_any_number:
  "features (handleTypeChange val s) Type_white = val
   \<and> features (handleTypeChange val s) Fixed_acidity = features s Fixed_acidity
   \<and> features (handleTypeChange val s) Volatile_acidity = features s Volatile_acidity
   \<and> features (handleTypeChange val s) Citric_acid = features s Citric_acid
   \<and> features (handleTypeChange val s) Chlorides = features s Chlorides
   \<and> features (handleTypeChange val s) Free_sulfur_dioxide = features s Free_sulfur_dioxide
   \<and> features (handleTypeChange val s) Density = features s Density
   \<and> features (handleTypeChange val s) Alcohol = features s Alcohol
   \<and> prediction (handleTypeChange val s) = prediction s
   \<and> isLoading (handleTypeChange val s) = isLoading s
   \<and> error (handleTypeChange val s) = error s"
  by (simp add: handleTypeChange_def)

section \<open>Submitting a prediction\<close>

text \<open>
  C8. Whatever the state was, \<^verbatim>\<open>handlePredict\<close> first sets the loading flag and
  clears the error and the prediction, and only then calls \<^verbatim>\<open>fetch\<close>: its last
  effect on submission is the request, and in the state the effects before it leave,
  no request has been added, the outcome is \<open>Pending\<close>, and neither a prior value nor
  a prior message remains.
\<close>

theorem handlePredict_submit_pending:
  "last (handlePredict_submit v (ui w))
     = Fetch \<lparr>url = endpoint v, http_method = ''POST'', headers = [(''Content-Type'', ''application/json'')],
              body = payload (features (ui w))\<rparr>
   \<and> inflight (foldl perform w (butlast (handlePredict_submit v (ui w)))) = inflight w
   \<and> outcome_of (ui (foldl perform w (butlast (handlePredict_submit v (ui w))))) = Pending
   \<and> prediction (ui (foldl perform w (butlast (handlePredict_submit v (ui w))))) = JNull
   \<and> error (ui (foldl perform w (butlast (handlePredict_submit v (ui w))))) = None
   \<and> outcome_of (ui (handlePredict_call v w)) = Pending"
  by (simp add: handlePredict_submit_def handlePredict_call_def outcome_of_def)

text \<open>
  C6. For every feature state, the object that \<^verbatim>\<open>handlePredict\<close> serializes as the body
  of its request has exactly the eight wire names as keys, once each, in the order
  written, and maps each to the current value of the corresponding feature; the initial
  state gives the object of the specification.
\<close>

theorem payload_keys:
  "map fst (payload f) = [''fixed_acidity'', ''volatile_acidity'', ''citric_acid'', ''chlorides'',
       ''free_sulfur_dioxide'', ''density'', ''alcohol'', ''type_white'']
   \<and> map snd (payload f) = [f Fixed_acidity, f Volatile_acidity, f Citric_acid, f Chlorides,
       f Free_sulfur_dioxide, f Density, f Alcohol, f Type_white]
   \<and> distinct (map fst (payload f))
   \<and> length (payload f) = 8
   \<and> map body (inflight (handlePredict_call v \<lparr>ui = s, inflight = []\<rparr>)) = [payload (features s)]
   \<and> payload (features initial) =
       [(''fixed_acidity'', Fin 7.0), (''volatile_acidity'', Fin 0.27), (''citric_acid'', Fin 0.36),
        (''chlorides'', Fin 0.05), (''free_sulfur_dioxide'', Fin 30), (''density'', Fin 0.995),
        (''alcohol'', Fin 10.5), (''type_white'', Fin 1)]"
  by (simp add: payload_def handlePredict_call_def handlePredict_submit_def initial_def)

subsection \<open>One request at a time\<close>

theorem handlePredict_unguarded_counterexample:
  "outcome_of (ui (handlePredict_call Proxied initial_world)) = Pending
   \<and> length (inflight (handlePredict_call Proxied initial_world)) = 1
   \<and> length (inflight (handlePredict_call Proxied (handlePredict_call Proxied initial_world))) = 2
   \<and> length (inflight (live (run Proxied sampleEngine initial_page [PredictButton, PredictButton]))) = 2"
  by (simp add: handlePredict_eval run_def initial_page_def initial_world_def initial_def)

lemma outcome_of_Pending: "(outcome_of s = Pending) = isLoading s"
  by (simp add: outcome_of_def split: option.split)

lemma foldl_perform_resume:
  "inflight (foldl perform w (handlePredict_resume v eng r)) = inflight w
   \<and> isLoading (ui (foldl perform w (handlePredict_resume v eng r))) = False"
  by (simp add: handlePredict_resume_def split: sum.split)

lemma foldl_perform_submit:
  "inflight (foldl perform w (handlePredict_submit v s)) = inflight w @
       [\<lparr>url = endpoint v, http_method = ''POST'',
         headers = [(''Content-Type'', ''application/json'')], body = payload (features s)\<rparr>]
   \<and> isLoading (ui (foldl perform w (handlePredict_submit v s))) = True"
  by (simp add: handlePredict_submit_def)

lemma settle_single:
  assumes "length (inflight w) \<le> 1"
  shows "inflight (settle v eng w i r) = (if i = 0 then [] else inflight w)
    \<and> (i < length (inflight w) \<longrightarrow> \<not> isLoading (ui (settle v eng w i r)))
    \<and> (\<not> i < length (inflight w) \<longrightarrow> settle v eng w i r = w)"
proof (cases "i < length (inflight w)")
  case True
  with assms have i0: "i = 0" and len: "length (inflight w) = 1" by simp_all
  then show ?thesis by (simp add: settle_def foldl_perform_resume)
next
  case False
  with assms have "i = 0 \<longrightarrow> inflight w = []" by auto
  with False show ?thesis by (auto simp add: settle_def)
qed

lemma single_flight_fire:
  assumes sf: "single_flight c p" and ok: "e \<noteq> PredictButton \<or> \<not> c"
  shows "single_flight (clicked c e) (fire v eng p e)"
proof (cases e)
  case (SliderInput name x)
  with sf show ?thesis by (simp add: single_flight_def handleSliderChange_def)
next
  case RedButton
  with sf show ?thesis by (simp add: single_flight_def handleTypeChange_def)
next
  case WhiteButton
  with sf show ?thesis by (simp add: single_flight_def handleTypeChange_def)
next
  case PredictButton
  with ok have nc: "\<not> c" by simp
  show ?thesis
  proof (cases "mounted p \<and> \<not> isLoading (rendered p)")
    case True
    with sf nc have "\<not> isLoading (ui (live p))" by (auto simp add: single_flight_def)
    with sf True have "inflight (live p) = []" by (auto simp add: single_flight_def)
    with True PredictButton show ?thesis
      by (simp add: single_flight_def foldl_perform_submit)
  next
    case False
    with sf PredictButton show ?thesis by (auto simp add: single_flight_def)
  qed
next
  case (Settled i r)
  from sf have len: "length (inflight (live p)) \<le> 1" by (simp add: single_flight_def)
  show ?thesis
  proof (cases "mounted p")
    case True
    note st = settle_single [OF len, of v eng i r]
    show ?thesis
    proof (cases "i < length (inflight (live p))")
      case lt: True
      with len have "i = 0" by simp
      with st lt True Settled show ?thesis by (simp add: single_flight_def)
    next
      case False
      with st have "settle v eng (live p) i r = live p" by simp
      with sf True Settled show ?thesis by (simp add: single_flight_def)
    qed
  next
    case False
    with len Settled show ?thesis by (simp add: single_flight_def)
  qed
next
  case Render
  with sf show ?thesis
    by (auto simp add: single_flight_def split: sum.split)
qed

lemma single_flight_run:
  "single_flight c p \<Longrightarrow> rendered_between_clicks c evs
     \<Longrightarrow> single_flight (foldl clicked c evs) (run v eng p evs)"
  unfolding run_def
proof (induction evs arbitrary: c p)
  case Nil
  then show ?case by simp
next
  case (Cons e es)
  from Cons.prems have "single_flight (clicked c e) (fire v eng p e)"
    by (simp add: single_flight_fire)
  moreover from Cons.prems have "rendered_between_clicks (clicked c e) es" by simp
  ultimately show ?case using Cons.IH by simp
qed

lemma rendered_between_clicks_append:
  "rendered_between_clicks c (xs @ ys)
     = (rendered_between_clicks c xs \<and> rendered_between_clicks (foldl clicked c xs) ys)"
  by (induction xs arbitrary: c) auto

lemma single_flight_initial: "single_flight False initial_page"
  by (simp add: single_flight_def initial_page_def initial_world_def)

text \<open>
  C1, as the code has it. \<^verbatim>\<open>handlePredict\<close> has no guard of its own; the guard is the
  \<^verbatim>\<open>disabled={isLoading}\<close> of the button that calls it, as of the last render. Take
  any sequence of page events from the initial state in which the predict button is
  never clicked twice without a render in between. Then at most one request is in
  flight after it; and when the outcome after it is \<open>Pending\<close>, one more click on the
  predict button changes nothing: it issues no request and leaves the state, and with
  it the effect of the answer still to come, as they were.
\<close>

theorem predict_button_single_flight:
  "(rendered_between_clicks False evs \<longrightarrow>
      length (inflight (live (run v eng initial_page evs))) \<le> 1)
   \<and> (rendered_between_clicks False (evs @ [PredictButton])
        \<and> outcome_of (ui (live (run v eng initial_page evs))) = Pending \<longrightarrow>
      run v eng initial_page (evs @ [PredictButton]) = run v eng initial_page evs)"
proof (intro conjI impI)
  assume "rendered_between_clicks False evs"
  then have "single_flight (foldl clicked False evs) (run v eng initial_page evs)"
    using single_flight_initial by (rule single_flight_run [rotated])
  then show "length (inflight (live (run v eng initial_page evs))) \<le> 1"
    by (simp add: single_flight_def)
next
  let ?p = "run v eng initial_page evs"
  assume a: "rendered_between_clicks False (evs @ [PredictButton])
    \<and> outcome_of (ui (live ?p)) = Pending"
  then have rb: "rendered_between_clicks False evs" and nc: "\<not> foldl clicked False evs"
    and loading: "isLoading (ui (live ?p))"
    by (simp_all add: rendered_between_clicks_append outcome_of_Pending)
  from rb have "single_flight (foldl clicked False evs) ?p"
    using single_flight_initial by (rule single_flight_run [rotated])
  with nc loading have "mounted ?p \<longrightarrow> isLoading (rendered ?p)"
    by (simp add: single_flight_def)
  then have "fire v eng ?p PredictButton = ?p" by auto
  then show "run v eng initial_page (evs @ [PredictButton]) = ?p"
    by (simp add: run_def)
qed

theorem predict_button_single_flight_witness:
  "rendered_between_clicks False [PredictButton, Render, PredictButton]
   \<and> outcome_of (ui (live (run Direct sampleEngine initial_page [PredictButton, Render]))) = Pending
   \<and> length (inflight (live (run Direct sampleEngine initial_page [PredictButton, Render]))) = 1
   \<and> run Direct sampleEngine initial_page [PredictButton, Render, PredictButton]
       = run Direct sampleEngine initial_page [PredictButton, Render]"
proof -
  have a: "rendered_between_clicks False ([PredictButton, Render] @ [PredictButton])" by simp
  have b: "outcome_of (ui (live (run Direct sampleEngine initial_page [PredictButton, Render]))) = Pending"
    by (simp add: run_def initial_page_def initial_world_def initial_def handlePredict_submit_def
        render_def outcome_of_def)
  have c: "length (inflight (live (run Direct sampleEngine initial_page [PredictButton, Render]))) = 1"
    by (simp add: run_def initial_page_def initial_world_def initial_def handlePredict_submit_def
        render_def)
  from predict_button_single_flight [of "[PredictButton, Render]" Direct sampleEngine] a b c
  show ?thesis by simp
qed

section \<open>The answer of the network\<close>

text \<open>
  C7. For every response with a success status (200 among them) whose body is an object
  with a numeric field \<open>predicted_quality = q\<close>, a call of \<^verbatim>\<open>handlePredict\<close> ends in
  \<open>Succeeded q\<close>: the prediction is \<open>q\<close> and no error is set.
\<close>

theorem handlePredict_success:
  assumes "ok resp" and "json resp = JsonResolved (JObj kvs)"
    and "map_of kvs ''predicted_quality'' = Some (JNum q)"
  shows "outcome_of (handlePredict v eng (Resolved resp) s) = Succeeded (JNum q)
     \<and> prediction (handlePredict v eng (Resolved resp) s) = JNum q
     \<and> error (handlePredict v eng (Resolved resp) s) = None"
  using assms by (simp add: handlePredict_state outcome_of_def)

theorem handlePredict_success_witness:
  "ok \<lparr>status = 200, json = JsonResolved (JObj [(''predicted_quality'', JNum (Fin 6.2))])\<rparr>
   \<and> outcome_of (handlePredict Proxied sampleEngine
      (Resolved \<lparr>status = 200, json = JsonResolved (JObj [(''predicted_quality'', JNum (Fin 6.2))])\<rparr>)
      initial) = Succeeded (JNum (Fin 6.2))"
proof -
  let ?r = "\<lparr>status = 200, json = JsonResolved (JObj [(''predicted_quality'', JNum (Fin 6.2))])\<rparr>"
  have a: "ok ?r" by (simp add: ok_def)
  moreover have "map_of [(''predicted_quality'', JNum (Fin 6.2))] ''predicted_quality'' = Some (JNum (Fin 6.2))"
    by simp
  ultimately show ?thesis
    using handlePredict_success [of ?r _ _ Proxied sampleEngine initial] by simp
qed

theorem handlePredict_application_error_counterexample:
  "error (handlePredict Proxied sampleEngine
      (Resolved \<lparr>status = 500, json = JsonRejected (Thrown SyntaxError ''Unexpected end of JSON input'')\<rparr>)
      initial) = Some ''Unexpected end of JSON input''
   \<and> error (handlePredict Proxied sampleEngine
      (Resolved \<lparr>status = 500, json = JsonResolved (JObj [(''error'', JStr [])])\<rparr>)
      initial) = Some ''Prediction request failed''
   \<and> error (handlePredict Proxied sampleEngine
      (Resolved \<lparr>status = 500,
                 json = JsonResolved (JObj [(''error'', JObj [(''toString'', JNum (Fin 1))])])\<rparr>)
      initial) = Some ''Cannot convert object to primitive value''"
  by (simp add: handlePredict_state ok_def sampleEngine_def)

text \<open>
  C3, as the code has it. Take a response with a status outside 200 to 299 whose body
  parses as JSON to a value other than \<^verbatim>\<open>null\<close>, and let \<open>e\<close> be the \<open>error\<close>
  property of the body (\<^verbatim>\<open>undefined\<close> when there is none). When \<open>e\<close> is truthy and
  converts to the string \<open>m\<close>, a call of \<^verbatim>\<open>handlePredict\<close> ends with the error \<open>m\<close>
  (for a non-empty string \<open>e\<close>, \<open>m\<close> is \<open>e\<close>); when \<open>e\<close> is absent or falsy, it ends
  with the fixed text \<^verbatim>\<open>Prediction request failed\<close>. In both cases nothing is loading,
  there is no prediction, and the page shows the message unless it is empty.
\<close>

theorem handlePredict_application_error:
  assumes "\<not> ok resp" and "json resp = JsonResolved data"
    and "getProperty eng data ''error'' = Inr e"
    and "ToString eng e = Inr m"
  shows "error (handlePredict v eng (Resolved resp) s)
       = Some (if ToBoolean e then m else ''Prediction request failed'')
     \<and> prediction (handlePredict v eng (Resolved resp) s) = JNull
     \<and> isLoading (handlePredict v eng (Resolved resp) s) = False
     \<and> render eng (handlePredict v eng (Resolved resp) s)
       = Inr \<lparr>buttonLabel = ''Predict Quality'', buttonDisabled = False,
              errorShown = (if ToBoolean e then (if m = [] then None else Some m)
                            else Some ''Prediction request failed''),
              predictionShown = None\<rparr>"
  using assms by (simp add: handlePredict_state catch_block_Error render_def)

theorem handlePredict_application_error_witness:
  "\<not> ok \<lparr>status = 500, json = JsonResolved (JObj [(''error'', JStr ''model unavailable'')])\<rparr>
   \<and> error (handlePredict Direct sampleEngine
      (Resolved \<lparr>status = 500, json = JsonResolved (JObj [(''error'', JStr ''model unavailable'')])\<rparr>)
      initial) = Some ''model unavailable''
   \<and> error (handlePredict Direct sampleEngine
      (Resolved \<lparr>status = 500, json = JsonResolved (JObj [])\<rparr>)
      initial) = Some ''Prediction request failed''"
proof -
  let ?r1 = "\<lparr>status = 500, json = JsonResolved (JObj [(''error'', JStr ''model unavailable'')])\<rparr>"
  let ?r2 = "\<lparr>status = 500, json = JsonResolved (JObj [])\<rparr>"
  have "\<not> ok ?r1" and "\<not> ok ?r2" by (simp_all add: ok_def)
  moreover have "getProperty sampleEngine (JObj [(''error'', JStr ''model unavailable'')]) ''error''
      = Inr (JStr ''model unavailable'')" by simp
  moreover have "getProperty sampleEngine (JObj []) ''error'' = Inr JUndefined" by simp
  moreover have "ToString sampleEngine (JStr ''model unavailable'') = Inr ''model unavailable''"
    and "ToString sampleEngine JUndefined = Inr ''undefined''" by simp_all
  ultimately show ?thesis
    using handlePredict_application_error [of ?r1 _ sampleEngine _ _ Direct initial]
      handlePredict_application_error [of ?r2 _ sampleEngine _ _ Direct initial]
    by simp
qed

text \<open>
  C4. The specification asks for a failure when a success response lacks
  \<open>predicted_quality\<close>, and the code has no check of the field. At status 200 with the
  body \<^verbatim>\<open>{}\<close> a call of \<^verbatim>\<open>handlePredict\<close> stores \<^verbatim>\<open>undefined\<close> in the prediction, which
  is declared \<^verbatim>\<open>number | null\<close>, and sets no error; the guard \<open>prediction !== null\<close>
  of the result box lets \<^verbatim>\<open>undefined\<close> through, so the next render throws on
  \<^verbatim>\<open>prediction.toFixed(1)\<close> and the component leaves the page.
\<close>

theorem handlePredict_missing_field_render_throws:
  "ok \<lparr>status = 200, json = JsonResolved (JObj [])\<rparr>
   \<and> prediction (handlePredict Proxied sampleEngine
        (Resolved \<lparr>status = 200, json = JsonResolved (JObj [])\<rparr>) initial) = JUndefined
   \<and> error (handlePredict Proxied sampleEngine
        (Resolved \<lparr>status = 200, json = JsonResolved (JObj [])\<rparr>) initial) = None
   \<and> isLoading (handlePredict Proxied sampleEngine
        (Resolved \<lparr>status = 200, json = JsonResolved (JObj [])\<rparr>) initial) = False
   \<and> render sampleEngine (handlePredict Proxied sampleEngine
        (Resolved \<lparr>status = 200, json = JsonResolved (JObj [])\<rparr>) initial)
       = Inl (Thrown TypeError (nullishReadMessage sampleEngine JUndefined ''toFixed''))
   \<and> mounted (run Proxied sampleEngine initial_page
        [PredictButton, Render, Settled 0 (Resolved \<lparr>status = 200, json = JsonResolved (JObj [])\<rparr>),
         Render]) = False"
  by (simp add: handlePredict_state ok_def render_def run_def initial_page_def initial_world_def
      initial_def handlePredict_submit_def handlePredict_resume_def settle_def)

theorem handlePredict_transport_counterexample:
  "outcome_of (handlePredict Proxied sampleEngine (Rejected (Thrown TypeError ''Failed to fetch'')) initial)
     = Failed ''Failed to fetch''
   \<and> outcome_of (handlePredict Proxied sampleEngine
       (Resolved \<lparr>status = 500, json = JsonResolved (JObj [(''error'', JStr ''Failed to fetch'')])\<rparr>) initial)
     = Failed ''Failed to fetch''
   \<and> outcome_of (handlePredict Direct sampleEngine (Rejected (Thrown TypeError ''Load failed'')) initial)
     = Failed ''Load failed''"
  by (simp add: handlePredict_state ok_def outcome_of_def)

text \<open>
  C5, as the code has it. When \<^verbatim>\<open>fetch\<close> rejects with a \<^verbatim>\<open>TypeError\<close> of message
  \<open>m\<close>, a call of \<^verbatim>\<open>handlePredict\<close> ends in \<open>Failed\<close>. In the direct variant, when
  \<open>m\<close> contains \<^verbatim>\<open>fetch\<close>, the message is the fixed text about a network error and
  cross-origin restrictions, which differs from the fixed text of the application
  failure; in the proxied variant, and in the direct variant when \<open>m\<close> does not
  contain \<^verbatim>\<open>fetch\<close>, the message is \<open>m\<close> itself.
\<close>

theorem handlePredict_transport_failure:
  "outcome_of (handlePredict v eng (Rejected (Thrown TypeError m)) s)
     = Failed (if v = Direct \<and> includes_str m ''fetch''
               then ''Network error: This could be due to CORS restrictions. Please ensure the API allows requests from this origin.''
               else m)
   \<and> ''Network error: This could be due to CORS restrictions. Please ensure the API allows requests from this origin.''
       \<noteq> ''Prediction request failed''"
  by (cases v) (simp_all add: handlePredict_state outcome_of_def)

theorem handlePredict_transport_failure_witness:
  "includes_str ''Failed to fetch'' ''fetch''
   \<and> outcome_of (handlePredict Direct sampleEngine (Rejected (Thrown TypeError ''Failed to fetch'')) initial)
     = Failed ''Network error: This could be due to CORS restrictions. Please ensure the API allows requests from this origin.''
   \<and> outcome_of (handlePredict Proxied sampleEngine (Rejected (Thrown TypeError ''Failed to fetch'')) initial)
     = Failed ''Failed to fetch''"
proof -
  have a: "includes_str ''Failed to fetch'' ''fetch''" by simp
  show ?thesis
    using a handlePredict_transport_failure [of Direct sampleEngine "''Failed to fetch''" initial]
      handlePredict_transport_failure [of Proxied sampleEngine "''Failed to fetch''" initial]
    by simp
qed

end
